theory Spec2Isabelle
  imports Complex_Main "HOL-Library.AList"
begin

section \<open>Channel performance view (ChannelPerformance component)\<close>

text \<open>
  The component receives the channel's daily rows as parsed JSON; the numbers of a row
  are JavaScript numbers (IEEE 754 doubles). A number is modelled as a finite value, the
  negative zero, one of the two infinities, or \<^verbatim>\<open>NaN\<close>. A finite value is
  modelled by the real number it denotes, \<open>Fin 0\<close> being the positive zero.
\<close>

datatype jsnum = Fin real | NegZero | PosInf | NegInf | NaN

fun isFinite :: "jsnum \<Rightarrow> bool" where
  "isFinite (Fin x) = True"
| "isFinite NegZero = True"
| "isFinite PosInf = False"
| "isFinite NegInf = False"
| "isFinite NaN = False"

fun is_zero :: "jsnum \<Rightarrow> bool" where
  "is_zero (Fin x) = (x = 0)"
| "is_zero NegZero = True"
| "is_zero PosInf = False"
| "is_zero NegInf = False"
| "is_zero NaN = False"

fun is_infinite :: "jsnum \<Rightarrow> bool" where
  "is_infinite (Fin x) = False"
| "is_infinite NegZero = False"
| "is_infinite PosInf = True"
| "is_infinite NegInf = True"
| "is_infinite NaN = False"

text \<open>The sign of a number (\<^verbatim>\<open>NaN\<close> has none), and the real value of a finite one.\<close>

fun negative :: "jsnum \<Rightarrow> bool" where
  "negative (Fin x) = (x < 0)"
| "negative NegZero = True"
| "negative PosInf = False"
| "negative NegInf = True"
| "negative NaN = False"

fun value_of :: "jsnum \<Rightarrow> real" where
  "value_of (Fin x) = x"
| "value_of NegZero = 0"
| "value_of PosInf = 0"
| "value_of NegInf = 0"
| "value_of NaN = 0"

definition zero_of :: "bool \<Rightarrow> jsnum" where
  "zero_of neg = (if neg then NegZero else Fin 0)"

definition infinity_of :: "bool \<Rightarrow> jsnum" where
  "infinity_of neg = (if neg then NegInf else PosInf)"

text \<open>
  The range of a double under round-to-nearest: an exact result of magnitude at least
  \<open>2 ^ 1024 - 2 ^ 970\<close> (the largest double plus half a unit in its last place)
  rounds to an infinity, one of magnitude at most \<open>1 / 2 ^ 1075\<close> (half the smallest
  positive double) rounds to a zero.
\<close>

definition overflow_bound :: real where
  "overflow_bound = 2 ^ 1024 - 2 ^ 970"

definition underflow_bound :: real where
  "underflow_bound = 1 / 2 ^ 1075"

text \<open>
  \<^verbatim>\<open>x / y\<close>, the IEEE 754 division of JavaScript. \<^verbatim>\<open>NaN\<close> if an operand is
  \<^verbatim>\<open>NaN\<close>, for two infinities and for two zeros; otherwise the sign of the result is
  negative exactly when the signs of the operands differ, and the result is an infinity
  when the dividend is infinite or the divisor is a zero, a zero when the dividend is a
  zero or the divisor is infinite, and else the quotient of the two finite values: an
  infinity when it overflows, a zero when it underflows. The rounding of a quotient
  within the range is not modelled: \<open>Fin q\<close> stands for the double nearest to \<open>q\<close>.
\<close>

definition js_div :: "jsnum \<Rightarrow> jsnum \<Rightarrow> jsnum" where
  "js_div x y =
     (if x = NaN \<or> y = NaN then NaN
      else if is_infinite x \<and> is_infinite y then NaN
      else if is_zero x \<and> is_zero y then NaN
      else if is_infinite x \<or> is_zero y then infinity_of (negative x \<noteq> negative y)
      else if is_zero x \<or> is_infinite y then zero_of (negative x \<noteq> negative y)
      else if overflow_bound \<le> \<bar>value_of x / value_of y\<bar>
        then infinity_of (negative x \<noteq> negative y)
      else if \<bar>value_of x / value_of y\<bar> \<le> underflow_bound
        then zero_of (negative x \<noteq> negative y)
      else Fin (value_of x / value_of y))"

text \<open>
  A row of \<^verbatim>\<open>time_series.daily\<close>
  (\<^verbatim>\<open>{date: string; spend: number; revenue: number; conversions: number}\<close>) and the
  points of the two derived series.
\<close>

record daily_row =
  date :: string
  spend :: jsnum
  revenue :: jsnum
  conversions :: jsnum

record roi_point =
  roi_spend :: jsnum
  roi_revenue :: jsnum
  roi_roas :: jsnum

record series_point =
  ts_date :: string
  ts_spend :: jsnum
  ts_revenue :: jsnum
  ts_conversions :: jsnum
  ts_roas :: jsnum

text \<open>
  The comparator \<^verbatim>\<open>(a, b) => a.spend - b.spend\<close> of the sort: \<open>difference_negative a b\<close>
  holds when \<^verbatim>\<open>a - b\<close> is a negative number, that is when \<open>a\<close> is ordered before \<open>b\<close>. A
  difference with a \<^verbatim>\<open>NaN\<close> operand or of two equal infinities is \<^verbatim>\<open>NaN\<close>, which the
  sort reads as 0; the difference of two finite numbers has the sign of the exact
  difference, its rounding never changes the sign.
\<close>

fun rank :: "jsnum \<Rightarrow> int" where
  "rank NegInf = - 1"
| "rank PosInf = 1"
| "rank (Fin x) = 0"
| "rank NegZero = 0"
| "rank NaN = 0"

definition difference_negative :: "jsnum \<Rightarrow> jsnum \<Rightarrow> bool" where
  "difference_negative a b =
     (a \<noteq> NaN \<and> b \<noteq> NaN
      \<and> (rank a < rank b \<or> (rank a = 0 \<and> rank b = 0 \<and> value_of a < value_of b)))"

text \<open>
  \<^verbatim>\<open>Array.prototype.sort\<close> with that comparator, as a stable insertion sort: a point is
  placed behind the points ordered before it and in front of the others. The sort of
  the language is stable, so every engine returns this order for a spend column without
  \<^verbatim>\<open>NaN\<close> (the comparator is then consistent); with a \<^verbatim>\<open>NaN\<close> spend the order is
  left to the engine, the points are the same.
\<close>

fun insert_by_spend :: "roi_point \<Rightarrow> roi_point list \<Rightarrow> roi_point list" where
  "insert_by_spend p [] = [p]"
| "insert_by_spend p (q # qs) =
     (if difference_negative (roi_spend q) (roi_spend p) then q # insert_by_spend p qs
      else p # q # qs)"

definition sort_by_spend :: "roi_point list \<Rightarrow> roi_point list" where
  "sort_by_spend ps = foldr insert_by_spend ps []"

text \<open>
  \<^verbatim>\<open>roiCurveData = daily.map(day => ({spend, revenue, roas: day.revenue / day.spend}))
                      .sort((a, b) => a.spend - b.spend)\<close>
\<close>

definition roi_of_day :: "daily_row \<Rightarrow> roi_point" where
  "roi_of_day day =
     \<lparr>roi_spend = spend day, roi_revenue = revenue day,
      roi_roas = js_div (revenue day) (spend day)\<rparr>"

definition roiCurveData :: "daily_row list \<Rightarrow> roi_point list" where
  "roiCurveData daily = sort_by_spend (map roi_of_day daily)"

text \<open>
  \<^verbatim>\<open>timeSeriesData = daily.map(day => ({...day, date: format(new Date(day.date), 'MMM dd'),
                                        roas: day.revenue / day.spend}))\<close>
  The date formatter of the date library is a parameter.
\<close>

definition timeSeriesData :: "(string \<Rightarrow> string) \<Rightarrow> daily_row list \<Rightarrow> series_point list" where
  "timeSeriesData format_MMM_dd daily =
     map (\<lambda>day. \<lparr>ts_date = format_MMM_dd (date day), ts_spend = spend day,
                  ts_revenue = revenue day, ts_conversions = conversions day,
                  ts_roas = js_div (revenue day) (spend day)\<rparr>) daily"

section \<open>Budget optimizer view (BudgetOptimizer component)\<close>

text \<open>
  The records of the API the component reads. Objects keyed by channel name are
  association lists in insertion order (the order of \<^verbatim>\<open>Object.entries\<close>), or maps where
  the component only looks a key up. Look-ups are own-property look-ups: channel names
  are not names of \<^verbatim>\<open>Object.prototype\<close>.
\<close>

record recommendation =
  rec_channel :: string
  rec_action :: string
  rec_current_spend :: real
  rec_recommended_spend :: real
  rec_priority :: string

record optimization_result =
  optimized_allocation :: "(string \<times> real) list"
  projected_revenue :: real
  current_revenue :: real
  roi_improvement :: real
  recommendations :: "recommendation list"

record channel_returns =
  saturation_point :: real
  current_spend :: real
  efficiency_status :: string

record channel_budget =
  cb_channel :: string
  cb_current :: real
  cb_optimized :: real

record simulator =
  totalBudget :: real
  optimizationResult :: "optimization_result option"
  diminishingReturns :: "(string \<rightharpoonup> channel_returns) option"
  channelBudgets :: "channel_budget list"
  loading :: bool
  simulationMode :: bool
  customBudgets :: "(string \<times> real) list"

text \<open>
  \<^verbatim>\<open>handleBudgetChange(channel, value)\<close>: \<^verbatim>\<open>{...prev, [channel]: value}\<close> replaces the
  value of an existing key in place and appends a new key at the end.
\<close>

definition handleBudgetChange :: "string \<Rightarrow> real \<Rightarrow> simulator \<Rightarrow> simulator" where
  "handleBudgetChange channel v st =
     st\<lparr>customBudgets := AList.update channel v (customBudgets st)\<rparr>"

text \<open>The multiplier chosen from a channel's efficiency status.\<close>

definition efficiency :: "string \<Rightarrow> real" where
  "efficiency status =
     (if status = ''efficient'' then 5.5
      else if status = ''under-invested'' then 6.5
      else if status = ''over-saturated'' then 3.5
      else 4.5)"

text \<open>The body of the \<^verbatim>\<open>forEach\<close> of \<^verbatim>\<open>calculateProjectedRevenue\<close>.\<close>

definition add_channel_revenue ::
  "(string \<rightharpoonup> channel_returns) \<Rightarrow> real \<Rightarrow> string \<times> real \<Rightarrow> real" where
  "add_channel_revenue dr projectedRevenue entry =
     (case dr (fst entry) of
        None \<Rightarrow> projectedRevenue
      | Some channelData \<Rightarrow>
          projectedRevenue + snd entry * efficiency (efficiency_status channelData))"

definition calculateProjectedRevenue :: "simulator \<Rightarrow> real" where
  "calculateProjectedRevenue st =
     (case optimizationResult st of
        None \<Rightarrow> 0
      | Some res \<Rightarrow>
          (case diminishingReturns st of
             None \<Rightarrow> 0
           | Some dr \<Rightarrow> foldl (add_channel_revenue dr) 0 (customBudgets st)))"

text \<open>
  \<^verbatim>\<open>projectedRevenue\<close> of the rendered view. The component renders the loading
  placeholder (no value) while loading or without an optimization result.
\<close>

definition projectedRevenue :: "simulator \<Rightarrow> real option" where
  "projectedRevenue st =
     (if loading st then None
      else case optimizationResult st of
        None \<Rightarrow> None
      | Some res \<Rightarrow>
          Some (if simulationMode st then calculateProjectedRevenue st
                else projected_revenue res))"

text \<open>The total of the simulator: \<^verbatim>\<open>Object.values(customBudgets).reduce((a, b) => a + b, 0)\<close>.\<close>

definition totalAllocated :: "simulator \<Rightarrow> real" where
  "totalAllocated st = foldl (\<lambda>a b. a + b) 0 (map snd (customBudgets st))"

definition totalColor :: "simulator \<Rightarrow> string" where
  "totalColor st =
     (if totalAllocated st > totalBudget st then ''text-red-600'' else ''text-green-600'')"

text \<open>
  The slider of a channel: a range input with \<^verbatim>\<open>min="0"\<close>,
  \<^verbatim>\<open>max={totalBudget * 0.5}\<close> and \<^verbatim>\<open>value={customBudgets[channel] || 0}\<close>.
\<close>

record slider =
  slider_min :: real
  slider_max :: real
  slider_value :: real

definition budgetSlider :: "simulator \<Rightarrow> string \<Rightarrow> slider" where
  "budgetSlider st channel =
     \<lparr>slider_min = 0, slider_max = totalBudget st * 0.5,
      slider_value = (case map_of (customBudgets st) channel of None \<Rightarrow> 0 | Some v \<Rightarrow> v)\<rparr>"

text \<open>
  A change event of a range input carries a value between the input's \<^verbatim>\<open>min\<close> and
  \<^verbatim>\<open>max\<close>; the handler stores it with \<^verbatim>\<open>handleBudgetChange\<close>.
\<close>

definition slider_accepts :: "slider \<Rightarrow> real \<Rightarrow> bool" where
  "slider_accepts s v = (slider_min s \<le> v \<and> v \<le> slider_max s)"

text \<open>
  \<^verbatim>\<open>runOptimization\<close> on a result of the API: the channel budgets and the custom
  budgets are initialised from the optimized allocation.
\<close>

definition find_current :: "recommendation list \<Rightarrow> string \<Rightarrow> real" where
  "find_current recs channel =
     (case List.find (\<lambda>r. rec_channel r = channel) recs of
        None \<Rightarrow> 0
      | Some r \<Rightarrow> rec_current_spend r)"

definition runOptimization :: "optimization_result \<Rightarrow> simulator \<Rightarrow> simulator" where
  "runOptimization result st =
     st\<lparr>optimizationResult := Some result,
        channelBudgets :=
          map (\<lambda>(channel, v).
                 \<lparr>cb_channel = channel,
                  cb_current = find_current (recommendations result) channel,
                  cb_optimized = v\<rparr>)
              (optimized_allocation result),
        customBudgets := optimized_allocation result,
        loading := False\<rparr>"

text \<open>The initial state of the component: \<^verbatim>\<open>useState(13000)\<close> and empty data.\<close>

definition initial_simulator :: simulator where
  "initial_simulator =
     \<lparr>totalBudget = 13000, optimizationResult = None, diminishingReturns = None,
      channelBudgets = [], loading = False, simulationMode = False, customBudgets = []\<rparr>"

text \<open>
  A run of the simulator from the initial state: the optimization result arrives, then
  three sliders are moved to their maximum.
\<close>

definition simulated_run :: simulator where
  "simulated_run =
     handleBudgetChange ''Email'' 6500
       (handleBudgetChange ''Meta Ads'' 6500
          (handleBudgetChange ''Google Ads'' 6500
             (runOptimization
                \<lparr>optimized_allocation =
                   [(''Google Ads'', 5000), (''Meta Ads'', 4000), (''Email'', 4000)],
                 projected_revenue = 60000, current_revenue = 50000, roi_improvement = 20,
                 recommendations = []\<rparr>
                initial_simulator)))"

text \<open>
  A state of the simulator in simulation mode with one over-saturated channel, and a
  state in which an optimization result gives one channel more than half of the budget.
\<close>

definition saturated_simulation :: simulator where
  "saturated_simulation =
     initial_simulator\<lparr>
        optimizationResult := Some \<lparr>optimized_allocation = [(''Meta Ads'', 6000)],
           projected_revenue = 19999, current_revenue = 15000, roi_improvement = 10,
           recommendations = []\<rparr>,
        diminishingReturns := Some [''Meta Ads'' \<mapsto>
           \<lparr>saturation_point = ln 5 / 0.002, current_spend = 6000,
            efficiency_status = ''over-saturated''\<rparr>],
        simulationMode := True,
        customBudgets := [(''Meta Ads'', 6000)]\<rparr>"

definition concentrated_optimization :: simulator where
  "concentrated_optimization =
     runOptimization
       \<lparr>optimized_allocation = [(''Google Ads'', 9000), (''Email'', 4000)],
        projected_revenue = 60000, current_revenue = 50000, roi_improvement = 20,
        recommendations = []\<rparr> initial_simulator"

section \<open>Attribution comparison view (AttributionComparison component)\<close>

text \<open>
  The comparison returned by the API. A row's \<^verbatim>\<open>percentage\<close> is optional: the view
  reads it with \<^verbatim>\<open>?.percentage || 0\<close>.
\<close>

record attribution_result =
  ar_channel :: string
  attributed_conversions :: real
  attributed_revenue :: real
  percentage :: "real option"

record variance_stats =
  var_min :: real
  var_max :: real
  var_variance :: real
  var_mean :: real

record comparison_data =
  models :: "(string \<times> attribution_result list) list"
  channel_variance :: "(string \<times> variance_stats) list"
  cmp_recommendation :: string

text \<open>A value of a chart row: the channel label or a number.\<close>

datatype jsval = Str string | Num real

text \<open>
  \<^verbatim>\<open>channelResult?.percentage || 0\<close>, with
  \<^verbatim>\<open>channelResult = results.find(r => r.channel === channel)\<close>: a missing row, a
  missing percentage and the percentage 0 all give 0.
\<close>

definition percentage_or_0 :: "attribution_result option \<Rightarrow> real" where
  "percentage_or_0 channelResult =
     (case channelResult of
        None \<Rightarrow> 0
      | Some r \<Rightarrow> (case percentage r of None \<Rightarrow> 0 | Some p \<Rightarrow> p))"

definition find_channel :: "string \<Rightarrow> attribution_result list \<Rightarrow> attribution_result option" where
  "find_channel channel results = List.find (\<lambda>r. ar_channel r = channel) results"

text \<open>
  One row of \<^verbatim>\<open>channelData\<close>: \<^verbatim>\<open>modelData = {channel}\<close>, then
  \<^verbatim>\<open>modelData[model] = ...\<close> for every entry of \<^verbatim>\<open>models\<close>.
\<close>

definition channel_row ::
  "(string \<times> attribution_result list) list \<Rightarrow> string \<Rightarrow> (string \<times> jsval) list" where
  "channel_row ms channel =
     foldl (\<lambda>modelData (model, results).
              AList.update model (Num (percentage_or_0 (find_channel channel results))) modelData)
           [(''channel'', Str channel)] ms"

definition channelData :: "comparison_data \<Rightarrow> (string \<times> jsval) list list" where
  "channelData cd = map (channel_row (models cd)) (map fst (channel_variance cd))"

record radar_point =
  radar_channel :: string
  radar_value :: real

text \<open>
  \<^verbatim>\<open>radarData\<close>:
  \<^verbatim>\<open>value: models[selectedModel]?.find(r => r.channel === channel)?.percentage || 0\<close>.
\<close>

definition radarData :: "comparison_data \<Rightarrow> string \<Rightarrow> radar_point list" where
  "radarData cd selectedModel =
     map (\<lambda>channel.
            \<lparr>radar_channel = channel,
             radar_value =
               (case map_of (models cd) selectedModel of
                  None \<Rightarrow> 0
                | Some results \<Rightarrow> percentage_or_0 (find_channel channel results))\<rparr>)
         (map fst (channel_variance cd))"

text \<open>
  A comparison in which the model \<^verbatim>\<open>time_decay\<close> has no row for TikTok and the model
  \<^verbatim>\<open>linear\<close> has a TikTok row without a percentage.
\<close>

definition sparse_comparison :: comparison_data where
  "sparse_comparison =
     \<lparr>models =
        [(''linear'',
          [\<lparr>ar_channel = ''Email'', attributed_conversions = 40, attributed_revenue = 4000,
            percentage = Some 100\<rparr>,
           \<lparr>ar_channel = ''TikTok'', attributed_conversions = 0, attributed_revenue = 0,
            percentage = None\<rparr>]),
         (''time_decay'',
          [\<lparr>ar_channel = ''Email'', attributed_conversions = 40, attributed_revenue = 4000,
            percentage = Some 100\<rparr>])],
      channel_variance =
        [(''Email'', \<lparr>var_min = 100, var_max = 100, var_variance = 0, var_mean = 100\<rparr>),
         (''TikTok'', \<lparr>var_min = 0, var_max = 0, var_variance = 0, var_mean = 0\<rparr>)],
      cmp_recommendation = ''linear''\<rparr>"

section \<open>Response curves and the budget optimizer of the backend\<close>

text \<open>
  The backend service (\<^verbatim>\<open>./backend\<close> in the compose file, started with
  \<^verbatim>\<open>python main.py\<close>) is not among the repository's source files; the views only call
  its API. The SaturationEstimator and the BudgetOptimizer are therefore modelled from
  sections 3, 4.3, 4.4, 5 and 7 of the specification.
\<close>

text \<open>
  Modelled from the spec: the ResponseCurve of the backend's SaturationEstimator. An
  accepted fit is \<open>revenue(spend) = a (1 - e^(- b spend))\<close> with \<open>a, b > 0\<close>; a
  rejected fit falls back to the linear curve \<open>revenue = k spend\<close> with
  \<open>k = total_revenue / total_spend\<close>.
\<close>

datatype response_curve = Saturating real real | LinearROAS real

fun revenue_at :: "response_curve \<Rightarrow> real \<Rightarrow> real" where
  "revenue_at (Saturating a b) s = a * (1 - exp (- b * s))"
| "revenue_at (LinearROAS k) s = k * s"


text \<open>
  Modelled from the spec: the curves a fit can return (\<open>a, b > 0\<close> for an accepted fit;
  a flat ROAS \<open>k \<ge> 0\<close>, a quotient of non-negative totals, for the fallback).
\<close>

fun fitted_curve :: "response_curve \<Rightarrow> bool" where
  "fitted_curve (Saturating a b) = (0 < a \<and> 0 < b)"
| "fitted_curve (LinearROAS k) = (0 \<le> k)"

text \<open>
  Modelled from the spec: projected revenue of an allocation, the sum of
  \<open>revenue_i(spend_i)\<close> over the channels' curves (section 4.4 of the specification).
\<close>

definition curve_revenue :: "(string \<times> response_curve) list \<Rightarrow> (string \<Rightarrow> real) \<Rightarrow> real" where
  "curve_revenue curves alloc = (\<Sum>(c, cv)\<leftarrow>curves. revenue_at cv (alloc c))"

text \<open>
  Modelled from the spec: a mapping from channel to spend, read as a function (a channel
  without an entry has spend 0).
\<close>

definition spend_of :: "(string \<times> real) list \<Rightarrow> string \<Rightarrow> real" where
  "spend_of m c = (case map_of m c of None \<Rightarrow> 0 | Some v \<Rightarrow> v)"

text \<open>Modelled from the spec: the error taxonomy of section 7.\<close>

datatype failure =
  InsufficientData | FitDivergence | EmptyAttributionRange | InvalidBudget
  | IterationCeilingExceeded





text \<open>
  Modelled from the spec: the running total of the allocation over the channels of the
  curve set, and the channels not yet at their bound maximum.
\<close>

definition running_total :: "(string \<times> response_curve) list \<Rightarrow> (string \<Rightarrow> real) \<Rightarrow> real" where
  "running_total curves alloc = (\<Sum>(c, cv)\<leftarrow>curves. alloc c)"



















section \<open>Predicates on plans and allocations\<close>





text \<open>
  Two constants of a curve set: the highest marginal return at zero spend, and the
  highest curvature, the bound \<open>a b\<^sup>2\<close> on the slope of the marginal return of a
  saturating curve at non-negative spend (0 for a linear curve).
\<close>

fun curvature :: "response_curve \<Rightarrow> real" where
  "curvature (Saturating a b) = a * b * b"
| "curvature (LinearROAS k) = 0"






section \<open>Properties of the channel performance view\<close>

lemma set_insert_by_spend: "set (insert_by_spend p qs) = insert p (set qs)"
  by (induction qs) auto

lemma set_sort_by_spend: "set (sort_by_spend ps) = set ps"
  unfolding sort_by_spend_def by (induction ps) (simp_all add: set_insert_by_spend)

lemma length_insert_by_spend: "length (insert_by_spend p qs) = Suc (length qs)"
  by (induction qs) auto

lemma length_sort_by_spend: "length (sort_by_spend ps) = length ps"
  unfolding sort_by_spend_def by (induction ps) (simp_all add: length_insert_by_spend)

lemma overflow_bound_pos: "0 < overflow_bound"
  unfolding overflow_bound_def by simp

lemma isFinite_js_div:
  "isFinite (js_div x y) =
     (isFinite x \<and> (is_infinite y
        \<or> (isFinite y \<and> \<not> is_zero y \<and> \<bar>value_of x / value_of y\<bar> < overflow_bound)))"
  using overflow_bound_pos
  by (cases x; cases y) (auto simp: js_div_def zero_of_def infinity_of_def)

text \<open>
  Claim C3, as stated: with a day of zero spend in the input, every numeric output, the
  per-day ROAS included, is finite, because the division is guarded. The view divides
  \<^verbatim>\<open>day.revenue / day.spend\<close> without a guard: for a day with revenue 100 and spend 0
  the ROAS of both chart series is \<^verbatim>\<open>Infinity\<close>, and for a day with neither spend nor
  revenue it is \<^verbatim>\<open>NaN\<close>.
\<close>

theorem roas_not_finite_at_zero_spend:
  "roiCurveData [\<lparr>date = ''2024-03-01'', spend = Fin 0, revenue = Fin 100,
                   conversions = Fin 4\<rparr>] =
     [\<lparr>roi_spend = Fin 0, roi_revenue = Fin 100, roi_roas = PosInf\<rparr>]
   \<and> map ts_roas (timeSeriesData (\<lambda>d. d)
        [\<lparr>date = ''2024-03-01'', spend = Fin 0, revenue = Fin 100, conversions = Fin 4\<rparr>,
         \<lparr>date = ''2024-03-02'', spend = Fin 0, revenue = Fin 0, conversions = Fin 0\<rparr>,
         \<lparr>date = ''2024-03-03'', spend = Fin 50, revenue = Fin 100, conversions = Fin 4\<rparr>])
       = [PosInf, NaN, Fin 2]
   \<and> \<not> isFinite PosInf \<and> \<not> isFinite NaN"
  by (simp add: roiCurveData_def sort_by_spend_def roi_of_day_def timeSeriesData_def js_div_def
        infinity_of_def zero_of_def overflow_bound_def underflow_bound_def)

text \<open>
  Claim C3, amended: the per-day ROAS of both chart series is the unguarded JavaScript
  quotient \<^verbatim>\<open>revenue / spend\<close> of the day; the points of the diminishing-returns series
  are the days' points, the time series keeps the days in order, and spend, revenue and
  conversions are passed on unchanged. For a finite revenue and a spend of 0 the ROAS is
  \<^verbatim>\<open>Infinity\<close> when the revenue is positive, \<^verbatim>\<open>-Infinity\<close> when it is negative and
  \<^verbatim>\<open>NaN\<close> when it is 0, with the two infinities exchanged for a spend of \<^verbatim>\<open>-0\<close>. For
  a finite revenue and a finite spend other than 0 it is the quotient, which is an
  infinity when its magnitude reaches the overflow bound of a double and a zero when
  the revenue is 0 or the quotient underflows. The ROAS is finite exactly when the
  revenue is finite and the spend is either infinite, or finite, not a zero and such
  that the quotient stays below the overflow bound.
\<close>

theorem roas_is_unguarded_quotient:
  "roi_of_day day = \<lparr>roi_spend = spend day, roi_revenue = revenue day,
                      roi_roas = js_div (revenue day) (spend day)\<rparr>
   \<and> set (roiCurveData daily) = roi_of_day ` set daily
   \<and> length (roiCurveData daily) = length daily
   \<and> timeSeriesData format_MMM_dd daily =
       map (\<lambda>day. \<lparr>ts_date = format_MMM_dd (date day), ts_spend = spend day,
                    ts_revenue = revenue day, ts_conversions = conversions day,
                    ts_roas = js_div (revenue day) (spend day)\<rparr>) daily
   \<and> js_div (Fin r) (Fin 0) = (if 0 < r then PosInf else if r < 0 then NegInf else NaN)
   \<and> js_div (Fin r) NegZero = (if 0 < r then NegInf else if r < 0 then PosInf else NaN)
   \<and> js_div NegZero (Fin s) = (if s = 0 then NaN else if s < 0 then Fin 0 else NegZero)
   \<and> js_div NegZero NegZero = NaN
   \<and> js_div (Fin r) (Fin s) =
       (if s = 0 then (if 0 < r then PosInf else if r < 0 then NegInf else NaN)
        else if r = 0 then (if s < 0 then NegZero else Fin 0)
        else if overflow_bound \<le> \<bar>r / s\<bar> then (if r / s < 0 then NegInf else PosInf)
        else if \<bar>r / s\<bar> \<le> underflow_bound then (if r / s < 0 then NegZero else Fin 0)
        else Fin (r / s))
   \<and> isFinite (js_div x y) =
       (isFinite x \<and> (is_infinite y
          \<or> (isFinite y \<and> \<not> is_zero y \<and> \<bar>value_of x / value_of y\<bar> < overflow_bound)))"
proof -
  have "js_div (Fin r) (Fin s) =
       (if s = 0 then (if 0 < r then PosInf else if r < 0 then NegInf else NaN)
        else if r = 0 then (if s < 0 then NegZero else Fin 0)
        else if overflow_bound \<le> \<bar>r / s\<bar> then (if r / s < 0 then NegInf else PosInf)
        else if \<bar>r / s\<bar> \<le> underflow_bound then (if r / s < 0 then NegZero else Fin 0)
        else Fin (r / s))"
  proof (cases "s = 0 \<or> r = 0")
    case True
    then show ?thesis by (auto simp: js_div_def zero_of_def infinity_of_def)
  next
    case False
    then have "((r < 0) \<noteq> (s < 0)) = (r / s < 0)"
      by (auto simp: divide_less_0_iff not_less order.order_iff_strict)
    with False show ?thesis by (simp add: js_div_def zero_of_def infinity_of_def)
  qed
  moreover have "js_div (Fin r) (Fin 0) = (if 0 < r then PosInf else if r < 0 then NegInf else NaN)"
    and "js_div (Fin r) NegZero = (if 0 < r then NegInf else if r < 0 then PosInf else NaN)"
    and "js_div NegZero (Fin s) = (if s = 0 then NaN else if s < 0 then Fin 0 else NegZero)"
    and "js_div NegZero NegZero = NaN"
    by (auto simp: js_div_def zero_of_def infinity_of_def)
  moreover have "set (roiCurveData daily) = roi_of_day ` set daily"
    and "length (roiCurveData daily) = length daily"
    by (simp_all add: roiCurveData_def set_sort_by_spend length_sort_by_spend)
  ultimately show ?thesis
    by (simp only: isFinite_js_div roi_of_day_def timeSeriesData_def simp_thms)
qed

theorem roas_is_unguarded_quotient_witness:
  "js_div (Fin 100) NegZero = NegInf
   \<and> js_div (Fin (10 ^ 308)) (Fin (1 / 10)) = PosInf
   \<and> \<not> isFinite (js_div (Fin (10 ^ 308)) (Fin (1 / 10)))
   \<and> js_div (Fin 90) (Fin 20) = Fin (9 / 2)
   \<and> isFinite (js_div (Fin 90) (Fin 20))
   \<and> length (roiCurveData
        [\<lparr>date = ''2024-03-03'', spend = Fin 50, revenue = Fin 100, conversions = Fin 4\<rparr>,
         \<lparr>date = ''2024-03-04'', spend = Fin 20, revenue = Fin 90, conversions = Fin 3\<rparr>]) = 2"
  by (simp add: roas_is_unguarded_quotient overflow_bound_def underflow_bound_def)

section \<open>Properties of the budget simulator\<close>

lemma foldl_add_channel_revenue:
  "foldl (add_channel_revenue dr) acc xs =
     acc + (\<Sum>e\<leftarrow>xs. case dr (fst e) of None \<Rightarrow> 0
                        | Some d \<Rightarrow> snd e * efficiency (efficiency_status d))"
  by (induction xs arbitrary: acc) (simp_all add: add_channel_revenue_def split: option.splits)

lemma foldl_skips_missing:
  "foldl (add_channel_revenue dr) acc (filter (\<lambda>e. dr (fst e) \<noteq> None) xs) =
   foldl (add_channel_revenue dr) acc xs"
  by (induction xs arbitrary: acc) (auto simp: add_channel_revenue_def)

lemma foldl_plus_sum_list: "foldl (\<lambda>a b. a + b) (acc::real) xs = acc + sum_list xs"
  by (induction xs arbitrary: acc) simp_all

lemma sum_list_update:
  "sum_list (map snd (AList.update k v xs)) =
     sum_list (map snd xs) - (case map_of xs k of None \<Rightarrow> 0 | Some w \<Rightarrow> w) + (v::real)"
  by (induction xs) (auto split: option.splits)

text \<open>
  Claim C2, as stated: the simulator's projected revenue of a custom allocation is the
  curve-based projection. It is not: for 6000 on an over-saturated channel the simulator
  shows 21000, above the asymptote 20000 of the channel's curve
  \<open>20000 (1 - e^(- 0.002 spend))\<close>, which the curve-based projection never reaches.
\<close>

theorem simulator_projection_not_curve_based:
  "projectedRevenue saturated_simulation = Some 21000
   \<and> curve_revenue [(''Meta Ads'', Saturating 20000 0.002)]
         (spend_of (customBudgets saturated_simulation)) < 20000
   \<and> projectedRevenue saturated_simulation \<noteq>
       Some (curve_revenue [(''Meta Ads'', Saturating 20000 0.002)]
               (spend_of (customBudgets saturated_simulation)))"
proof -
  have shown: "projectedRevenue saturated_simulation = Some 21000"
    by (simp add: saturated_simulation_def projectedRevenue_def initial_simulator_def
          calculateProjectedRevenue_def add_channel_revenue_def efficiency_def)
  have curve: "curve_revenue [(''Meta Ads'', Saturating 20000 0.002)]
         (spend_of (customBudgets saturated_simulation)) < 20000"
    by (simp add: saturated_simulation_def initial_simulator_def curve_revenue_def
          spend_of_def)
  from shown curve show ?thesis by auto
qed

text \<open>
  Claim C2, amended: outside simulation mode the view shows the projected revenue of the
  optimization result; in simulation mode it shows, for the custom allocation, the sum
  over the channels found in the diminishing-returns data of spend times a flat
  multiplier chosen by the channel's efficiency status (5.5 efficient, 6.5 under-invested,
  3.5 over-saturated, 4.5 otherwise).
\<close>

theorem simulator_projection_is_flat_multiplier:
  assumes "\<not> loading st" and "optimizationResult st = Some res"
    and "diminishingReturns st = Some dr"
  shows "projectedRevenue st =
     Some (if simulationMode st
           then (\<Sum>(channel, s)\<leftarrow>customBudgets st.
                   case dr channel of None \<Rightarrow> 0
                   | Some d \<Rightarrow> s * efficiency (efficiency_status d))
           else projected_revenue res)"
proof -
  have "calculateProjectedRevenue st =
      (\<Sum>e\<leftarrow>customBudgets st. case dr (fst e) of None \<Rightarrow> 0
                   | Some d \<Rightarrow> snd e * efficiency (efficiency_status d))"
    using assms by (simp add: calculateProjectedRevenue_def foldl_add_channel_revenue)
  also have "\<dots> = (\<Sum>(channel, s)\<leftarrow>customBudgets st.
                   case dr channel of None \<Rightarrow> 0
                   | Some d \<Rightarrow> s * efficiency (efficiency_status d))"
    by (simp add: split_def)
  finally show ?thesis
    using assms by (simp add: projectedRevenue_def)
qed

theorem simulator_projection_is_flat_multiplier_witness:
  "\<not> loading saturated_simulation
   \<and> diminishingReturns saturated_simulation =
       Some [''Meta Ads'' \<mapsto> \<lparr>saturation_point = ln 5 / 0.002, current_spend = 6000,
                                efficiency_status = ''over-saturated''\<rparr>]
   \<and> projectedRevenue saturated_simulation = Some (6000 * 3.5)"
proof -
  have a: "\<not> loading saturated_simulation"
    and b: "optimizationResult saturated_simulation =
              Some \<lparr>optimized_allocation = [(''Meta Ads'', 6000)],
                    projected_revenue = 19999, current_revenue = 15000, roi_improvement = 10,
                    recommendations = []\<rparr>"
    and c: "diminishingReturns saturated_simulation =
              Some [''Meta Ads'' \<mapsto> \<lparr>saturation_point = ln 5 / 0.002, current_spend = 6000,
                                       efficiency_status = ''over-saturated''\<rparr>]"
    by (simp_all add: saturated_simulation_def initial_simulator_def)
  have d: "simulationMode saturated_simulation"
    and e: "customBudgets saturated_simulation = [(''Meta Ads'', 6000)]"
    by (simp_all add: saturated_simulation_def initial_simulator_def)
  show ?thesis
    using a c simulator_projection_is_flat_multiplier [OF a b c]
    by (simp add: d e efficiency_def)
qed

text \<open>
  Claim C10. \<^verbatim>\<open>calculateProjectedRevenue\<close> is 0 when the optimization result or the
  diminishing-returns data is missing, and the channels of the custom budgets that the
  diminishing-returns data does not know are skipped: the result is that of the custom
  budgets without them. The function has no failure value: it always returns a number.
\<close>

theorem calculateProjectedRevenue_skips_missing_data:
  "(optimizationResult st = None \<or> diminishingReturns st = None
      \<longrightarrow> calculateProjectedRevenue st = 0)
   \<and> (diminishingReturns st = Some dr \<longrightarrow>
        calculateProjectedRevenue st =
        calculateProjectedRevenue
          (st\<lparr>customBudgets := filter (\<lambda>e. dr (fst e) \<noteq> None) (customBudgets st)\<rparr>))"
  by (simp add: calculateProjectedRevenue_def foldl_skips_missing del: not_None_eq
        split: option.splits)

theorem calculateProjectedRevenue_skips_missing_data_witness:
  "calculateProjectedRevenue (initial_simulator\<lparr>customBudgets := [(''Email'', 2000)]\<rparr>) = 0
   \<and> calculateProjectedRevenue
       (saturated_simulation\<lparr>customBudgets := [(''Meta Ads'', 6000), (''TikTok'', 1000)]\<rparr>)
     = calculateProjectedRevenue saturated_simulation"
  using calculateProjectedRevenue_skips_missing_data
          [of "initial_simulator\<lparr>customBudgets := [(''Email'', 2000)]\<rparr>"]
        calculateProjectedRevenue_skips_missing_data
          [of "saturated_simulation\<lparr>customBudgets := [(''Meta Ads'', 6000), (''TikTok'', 1000)]\<rparr>"
              "[''Meta Ads'' \<mapsto> \<lparr>saturation_point = ln 5 / 0.002, current_spend = 6000,
                                   efficiency_status = ''over-saturated''\<rparr>]"]
  by (simp add: initial_simulator_def saturated_simulation_def)

lemma simulated_run_over_budget:
  "totalAllocated simulated_run = 19500 \<and> totalBudget simulated_run = 13000
   \<and> totalColor simulated_run = ''text-red-600''
   \<and> list_all (\<lambda>(c, v). slider_accepts (budgetSlider simulated_run c) v)
        (customBudgets simulated_run)"
  by (simp add: simulated_run_def handleBudgetChange_def runOptimization_def
        initial_simulator_def totalAllocated_def totalColor_def slider_accepts_def
        budgetSlider_def)

text \<open>
  Claim C9, as stated: every channel's simulated budget lies in
  \<open>[0, 0.5 total_budget]\<close>. The simulated budgets start as the optimized allocation,
  which no slider has confined: with 9000 of 13000 on one channel the simulated budget of
  that channel is 9000, above the slider's maximum 6500.
\<close>

theorem initial_budget_outside_slider_range:
  "customBudgets concentrated_optimization = [(''Google Ads'', 9000), (''Email'', 4000)]
   \<and> totalAllocated concentrated_optimization = totalBudget concentrated_optimization
   \<and> slider_max (budgetSlider concentrated_optimization ''Google Ads'') = 6500
   \<and> \<not> slider_accepts (budgetSlider concentrated_optimization ''Google Ads'') 9000"
  by (simp add: concentrated_optimization_def runOptimization_def initial_simulator_def
        slider_accepts_def budgetSlider_def totalAllocated_def)

text \<open>
  Claim C9, amended: every budget set through a slider lies in \<open>[0, 0.5 total_budget]\<close>
  (the budgets the simulator starts with are the optimized allocation and are not
  confined by the sliders); the handler stores the value whatever the resulting total is,
  which changes by the difference to the slider's previous value; the total may exceed
  the total budget, as in the run above, where every budget is within its slider's range
  and the total is 19500 of 13000: only the colour of the total changes.
\<close>

theorem slider_confines_budget_not_total:
  assumes "slider_accepts (budgetSlider st channel) v"
  shows "map_of (customBudgets (handleBudgetChange channel v st)) channel = Some v
       \<and> 0 \<le> v \<and> v \<le> 0.5 * totalBudget st
       \<and> totalBudget (handleBudgetChange channel v st) = totalBudget st
       \<and> totalAllocated (handleBudgetChange channel v st) =
           totalAllocated st - slider_value (budgetSlider st channel) + v
       \<and> list_all (\<lambda>(c, v). slider_accepts (budgetSlider simulated_run c) v)
            (customBudgets simulated_run)
       \<and> totalAllocated simulated_run > totalBudget simulated_run
       \<and> totalColor simulated_run = ''text-red-600''"
proof -
  have "0 \<le> v \<and> v \<le> 0.5 * totalBudget st"
    using assms by (simp add: slider_accepts_def budgetSlider_def)
  moreover have "map_of (customBudgets (handleBudgetChange channel v st)) channel = Some v"
    by (simp add: handleBudgetChange_def update_conv')
  moreover have "totalAllocated (handleBudgetChange channel v st) =
           totalAllocated st - slider_value (budgetSlider st channel) + v"
    by (simp add: totalAllocated_def handleBudgetChange_def foldl_plus_sum_list
          sum_list_update budgetSlider_def)
  moreover have "totalBudget (handleBudgetChange channel v st) = totalBudget st"
    by (simp add: handleBudgetChange_def)
  ultimately show ?thesis
    using simulated_run_over_budget by simp
qed

theorem slider_confines_budget_not_total_witness:
  "slider_accepts (budgetSlider initial_simulator ''Email'') 6500
   \<and> map_of (customBudgets (handleBudgetChange ''Email'' 6500 initial_simulator)) ''Email''
       = Some 6500
   \<and> totalAllocated (handleBudgetChange ''Email'' 6500 initial_simulator) = 6500"
proof -
  have h: "slider_accepts (budgetSlider initial_simulator ''Email'') 6500"
    by (simp add: slider_accepts_def budgetSlider_def initial_simulator_def)
  show ?thesis
    using h slider_confines_budget_not_total [OF h]
    by (simp add: totalAllocated_def budgetSlider_def initial_simulator_def)
qed

section \<open>Properties of the attribution comparison view\<close>

lemma map_of_foldl_update:
  "map_of (foldl (\<lambda>md (k, x). AList.update k (f x) md) init ms) m =
     (case map_of (rev ms) m of None \<Rightarrow> map_of init m | Some x \<Rightarrow> Some (f x))"
proof (induction ms arbitrary: init)
  case Nil
  then show ?case by simp
next
  case (Cons a ms)
  obtain k x where a: "a = (k, x)" by (cases a)
  show ?case
    by (simp add: a Cons.IH update_conv' map_add_def split: option.splits)
qed

lemma map_of_rev_distinct:
  "distinct (map fst ms) \<Longrightarrow> map_of (rev ms) = map_of ms"
  by (metis distinct_rev map_of_inject_set rev_map set_rev)

lemma channel_row_model:
  assumes "distinct (map fst ms)" and "(model, results) \<in> set ms"
  shows "map_of (channel_row ms channel) model =
           Some (Num (percentage_or_0 (find_channel channel results)))"
proof -
  have "map_of (rev ms) model = Some results"
    using assms by (simp add: map_of_rev_distinct)
  then show ?thesis
    unfolding channel_row_def by (simp add: map_of_foldl_update)
qed

text \<open>
  Claim C8. For the channel at position \<open>i\<close> of \<^verbatim>\<open>channel_variance\<close> and a model of
  \<^verbatim>\<open>models\<close> (an object: its keys are distinct) whose results have no row for the channel,
  or whose row for the channel has no percentage, the chart data has one row per channel,
  the row of the channel gives the model the percentage 0, and the radar data of that
  model has the value 0 for the channel.
\<close>

theorem missing_attribution_is_zero:
  assumes "i < length (channel_variance cd)"
    and "channel = fst (channel_variance cd ! i)"
    and "distinct (map fst (models cd))"
    and "(model, results) \<in> set (models cd)"
    and "find_channel channel results = None
         \<or> (\<exists>r. find_channel channel results = Some r \<and> percentage r = None)"
  shows "length (channelData cd) = length (channel_variance cd)
       \<and> map_of (channelData cd ! i) model = Some (Num 0)
       \<and> length (radarData cd model) = length (channel_variance cd)
       \<and> radarData cd model ! i = \<lparr>radar_channel = channel, radar_value = 0\<rparr>"
proof -
  have zero: "percentage_or_0 (find_channel channel results) = 0"
    using assms(5) by (auto simp: percentage_or_0_def)
  have look: "map_of (models cd) model = Some results"
    using assms(3,4) by simp
  show ?thesis
    using assms(1,2) zero look
    by (simp add: channelData_def radarData_def channel_row_model [OF assms(3,4)])
qed

theorem missing_attribution_is_zero_witness:
  "map_of (channelData sparse_comparison ! 1) ''time_decay'' = Some (Num 0)
   \<and> radarData sparse_comparison ''time_decay'' ! 1
       = \<lparr>radar_channel = ''TikTok'', radar_value = 0\<rparr>
   \<and> length (channelData sparse_comparison) = 2"
proof -
  have a: "1 < length (channel_variance sparse_comparison)"
    and b: "''TikTok'' = fst (channel_variance sparse_comparison ! 1)"
    and c: "distinct (map fst (models sparse_comparison))"
    and d: "(''time_decay'',
             [\<lparr>ar_channel = ''Email'', attributed_conversions = 40, attributed_revenue = 4000,
               percentage = Some 100\<rparr>]) \<in> set (models sparse_comparison)"
    by (simp_all add: sparse_comparison_def)
  have e: "find_channel ''TikTok''
             [\<lparr>ar_channel = ''Email'', attributed_conversions = 40, attributed_revenue = 4000,
               percentage = Some 100\<rparr>] = None
           \<or> (\<exists>r. find_channel ''TikTok''
             [\<lparr>ar_channel = ''Email'', attributed_conversions = 40, attributed_revenue = 4000,
               percentage = Some 100\<rparr>] = Some r \<and> percentage r = None)"
    by (simp add: find_channel_def)
  show ?thesis
    using missing_attribution_is_zero [OF a b c d e]
    by (simp add: sparse_comparison_def)
qed

section \<open>Properties of the water-filling loop\<close>














lemma sum_plan:
  "sum_list (map snd (map (\<lambda>(c, cv). (c, alloc c)) curves)) = running_total curves alloc"
  unfolding running_total_def by (induction curves) auto


















lemma curvature_nonneg: "fitted_curve cv \<Longrightarrow> 0 \<le> curvature cv"
  by (cases cv) simp_all

































section \<open>Properties of the budget optimizer\<close>








end
